theory Spec2Isabelle
  imports Main "HOL-Library.Word"
begin

section \<open>Scheduled notification jobs (namespace metabase.task.follow-up-emails)\<close>

text \<open>
  The Clojure namespace \<^verbatim>\<open>metabase.task.follow-up-emails\<close> defines two cron jobs,
  \<^verbatim>\<open>FollowUpEmail\<close> and \<^verbatim>\<open>AbandonmentEmail\<close>. Each reads the application database, two
  persisted boolean settings, the email configuration and the clock, and may call
  \<^verbatim>\<open>messages/send-follow-up-email!\<close>. The embedding passes the whole of that environment as
  one record; a job is a function from the record to an outcome and the updated record.
\<close>

subsection \<open>Data\<close>

text \<open>
  A row of the User table, with the four columns the namespace reads. Timestamps are
  integers (seconds); \<^verbatim>\<open>date_joined\<close> and \<^verbatim>\<open>email\<close> are never NULL.
\<close>

record user =
  email :: string
  is_superuser :: bool
  is_active :: bool
  date_joined :: int

datatype throwable = Throwable string

datatype log_entry =
    Error string throwable
  | Info string

text \<open>
  \<^item> \<open>users\<close>, \<open>activity\<close>, \<open>view_log\<close>: the User table, and the \<^verbatim>\<open>timestamp\<close> column of
    the Activity and ViewLog tables;
  \<^item> \<open>follow_up_email_sent\<close>, \<open>abandonment_email_sent\<close>: the two settings declared with
    \<^verbatim>\<open>defsetting\<close> (type boolean, default false);
  \<^item> \<open>email_configured\<close>: what \<^verbatim>\<open>(email/email-configured?)\<close> answers;
  \<^item> \<open>anon_tracking_enabled\<close>: what \<^verbatim>\<open>(public-settings/anon-tracking-enabled)\<close> answers;
  \<^item> \<open>clock\<close>: the current time;
  \<^item> \<open>sent_mail\<close>: every call of \<^verbatim>\<open>messages/send-follow-up-email!\<close> so far, as
    (address, message type), oldest first;
  \<^item> \<open>log_entries\<close>: what was written with \<^verbatim>\<open>log/error\<close> and \<^verbatim>\<open>log/info\<close>.
\<close>

record world =
  users :: "user list"
  activity :: "int list"
  view_log :: "int list"
  follow_up_email_sent :: bool
  abandonment_email_sent :: bool
  email_configured :: bool
  anon_tracking_enabled :: bool
  clock :: int
  sent_mail :: "(string \<times> string) list"
  log_entries :: "log_entry list"

text \<open>
  A computation either returns a value or throws; both leave a world behind.
  The mail transport is a parameter: for an address and a message type it tells whether
  the call of \<^verbatim>\<open>messages/send-follow-up-email!\<close> throws, and what.
\<close>

type_synonym 'a action = "world \<Rightarrow> (throwable + 'a) \<times> world"

type_synonym mailer = "string \<Rightarrow> string \<Rightarrow> throwable option"

subsection \<open>Collaborators\<close>

definition weeks :: "int \<Rightarrow> int" where
  "weeks n = n * 604800"

text \<open>
  Modelled from the spec: \<^verbatim>\<open>u.date/older-than?\<close> (namespace metabase.util.date-2) is not
  among the sources. The specification reads \<^verbatim>\<open>(older-than? t d)\<close> as
  "now - t >= d" ("now - creation >= 2 weeks", "is >= 2 weeks old").
\<close>

definition older_than :: "int \<Rightarrow> int \<Rightarrow> int \<Rightarrow> bool" where
  "older_than current t d = (d \<le> current - t)"

text \<open>
  \<^verbatim>\<open>select-one\<close> with \<^verbatim>\<open>{:order-by [:date_joined]}\<close>: the rows that satisfy the
  conditions, ordered by \<^verbatim>\<open>date_joined\<close> ascending (rows with equal dates keep the table's
  order), first row or nil.
\<close>

definition select_one :: "(user \<Rightarrow> bool) \<Rightarrow> user list \<Rightarrow> user option" where
  "select_one conditions table =
     (case sort_key date_joined (filter conditions table) of
        [] \<Rightarrow> None
      | row # _ \<Rightarrow> Some row)"

definition select_one_field :: "(user \<Rightarrow> 'a) \<Rightarrow> (user \<Rightarrow> bool) \<Rightarrow> user list \<Rightarrow> 'a option" where
  "select_one_field field conditions table = map_option field (select_one conditions table)"

text \<open>The SQL aggregate \<^verbatim>\<open>max\<close>: NULL on an empty table.\<close>

fun sql_max :: "int list \<Rightarrow> int option" where
  "sql_max [] = None"
| "sql_max (x # xs) = Some (fold max xs x)"

definition messages_send_follow_up_email :: "mailer \<Rightarrow> string \<Rightarrow> string \<Rightarrow> unit action" where
  "messages_send_follow_up_email transport address msg_type w =
     (let w' = w\<lparr>sent_mail := sent_mail w @ [(address, msg_type)]\<rparr>
      in case transport address msg_type of
           None \<Rightarrow> (Inr (), w')
         | Some e \<Rightarrow> (Inl e, w'))"

definition log_error :: "string \<Rightarrow> throwable \<Rightarrow> unit action" where
  "log_error msg e w = (Inr (), w\<lparr>log_entries := log_entries w @ [Error msg e]\<rparr>)"

definition log_info :: "string \<Rightarrow> unit action" where
  "log_info msg w = (Inr (), w\<lparr>log_entries := log_entries w @ [Info msg]\<rparr>)"

definition set_follow_up_email_sent :: "bool \<Rightarrow> unit action" where
  "set_follow_up_email_sent v w = (Inr (), w\<lparr>follow_up_email_sent := v\<rparr>)"

definition set_abandonment_email_sent :: "bool \<Rightarrow> unit action" where
  "set_abandonment_email_sent v w = (Inr (), w\<lparr>abandonment_email_sent := v\<rparr>)"

text \<open>
  \<^verbatim>\<open>(try body (catch Throwable e (handler e)) (finally cleanup))\<close>: the cleanup runs after
  the body, or after the handler when the body has thrown; the value is the body's, or
  the handler's; what the handler or the cleanup throws propagates.
\<close>

definition try_catch_finally ::
  "'a action \<Rightarrow> (throwable \<Rightarrow> 'a action) \<Rightarrow> unit action \<Rightarrow> 'a action" where
  "try_catch_finally body handler cleanup w =
     (let (r, w1) = (case body w of
                       (Inr v, w0) \<Rightarrow> (Inr v, w0)
                     | (Inl e, w0) \<Rightarrow> handler e w0)
      in case cleanup w1 of
           (Inl e', w2) \<Rightarrow> (Inl e', w2)
         | (Inr _, w2) \<Rightarrow> (r, w2))"

subsection \<open>The follow-up email\<close>

definition send_follow_up_email :: "mailer \<Rightarrow> unit action" where
  "send_follow_up_email transport w =
     (if email_configured w \<and> anon_tracking_enabled w \<and> \<not> follow_up_email_sent w then
        (case select_one (\<lambda>u. is_superuser u \<and> is_active u) (users w) of
           None \<Rightarrow> (Inr (), w)
         | Some admin \<Rightarrow>
             try_catch_finally
               (messages_send_follow_up_email transport (email admin) ''follow-up'')
               (\<lambda>e. log_error ''Problem sending follow-up email:'' e)
               (set_follow_up_email_sent True) w)
      else (Inr (), w))"

definition instance_creation_timestamp :: "world \<Rightarrow> int option" where
  "instance_creation_timestamp w = select_one_field date_joined (\<lambda>u. True) (users w)"

definition FollowUpEmail :: "mailer \<Rightarrow> unit action" where
  "FollowUpEmail transport w =
     (if \<not> follow_up_email_sent w then
        (case instance_creation_timestamp w of
           None \<Rightarrow> (Inr (), w)
         | Some instance_created \<Rightarrow>
             if older_than (clock w) instance_created (weeks 2)
             then send_follow_up_email transport w
             else (Inr (), w))
      else (Inr (), w))"

subsection \<open>The abandonment email\<close>

text \<open>The four-argument arity of \<^verbatim>\<open>should-send-abandoment-email?\<close>; it reads the clock.\<close>

definition should_send_abandoment_email4 ::
  "int \<Rightarrow> int option \<Rightarrow> int option \<Rightarrow> int option \<Rightarrow> int option \<Rightarrow> bool" where
  "should_send_abandoment_email4 current instance_creation last_user last_activity last_view =
     (case instance_creation of
        None \<Rightarrow> False
      | Some created \<Rightarrow>
          older_than current created (weeks 4)
          \<and> (case last_user of None \<Rightarrow> True | Some t \<Rightarrow> older_than current t (weeks 2))
          \<and> (case last_activity of None \<Rightarrow> True | Some t \<Rightarrow> older_than current t (weeks 2))
          \<and> (case last_view of None \<Rightarrow> True | Some t \<Rightarrow> older_than current t (weeks 2)))"

text \<open>The zero-argument arity: the three maxima come from one UNION ALL query.\<close>

definition should_send_abandoment_email :: "world \<Rightarrow> bool" where
  "should_send_abandoment_email w =
     (let last_user = sql_max (map date_joined (users w));
          last_activity = sql_max (activity w);
          last_view = sql_max (view_log w)
      in should_send_abandoment_email4 (clock w)
           (instance_creation_timestamp w) last_user last_activity last_view)"

definition send_abandoment_email_if_needed :: "mailer \<Rightarrow> unit action" where
  "send_abandoment_email_if_needed transport w =
     (case select_one_field email is_superuser (users w) of
        None \<Rightarrow> (Inr (), w)
      | Some admin_email \<Rightarrow>
          if should_send_abandoment_email w then
            (case log_info ''Sending abandonment email!'' w of
               (Inl e, w1) \<Rightarrow> (Inl e, w1)
             | (Inr _, w1) \<Rightarrow>
                 try_catch_finally
                   (messages_send_follow_up_email transport admin_email ''abandon'')
                   (\<lambda>e. log_error ''Problem sending abandonment email'' e)
                   (set_abandonment_email_sent True) w1)
          else (Inr (), w))"

definition AbandonmentEmail :: "mailer \<Rightarrow> unit action" where
  "AbandonmentEmail transport w =
     (if \<not> abandonment_email_sent w then
        (if email_configured w \<and> anon_tracking_enabled w
         then send_abandoment_email_if_needed transport w
         else (Inr (), w))
      else (Inr (), w))"

subsection \<open>The life of an instance\<close>

text \<open>
  Both jobs are registered with the cron schedule \<^verbatim>\<open>0 0 12 * * ? *\<close>. Between two
  firings anything outside the namespace may change: rows are added to or removed from the
  tables, email is configured or not, tracking is switched, time passes. None of this
  writes the two settings, which are private to the namespace, nor the record of mail.
\<close>

datatype trigger =
    Fire_FollowUpEmail mailer
  | Fire_AbandonmentEmail mailer
  | Outside "user list" "int list" "int list" bool bool int

fun occur :: "trigger \<Rightarrow> world \<Rightarrow> world" where
  "occur (Fire_FollowUpEmail transport) w = snd (FollowUpEmail transport w)"
| "occur (Fire_AbandonmentEmail transport) w = snd (AbandonmentEmail transport w)"
| "occur (Outside us acts views configured tracking t) w =
     w\<lparr>users := us, activity := acts, view_log := views,
       email_configured := configured, anon_tracking_enabled := tracking, clock := t\<rparr>"

definition lifetime :: "trigger list \<Rightarrow> world \<Rightarrow> world" where
  "lifetime ts w = fold occur ts w"

text \<open>How many calls of \<^verbatim>\<open>messages/send-follow-up-email!\<close> had the given message type.\<close>

definition attempts :: "string \<Rightarrow> world \<Rightarrow> nat" where
  "attempts msg_type w = length (filter (\<lambda>m. snd m = msg_type) (sent_mail w))"

subsection \<open>Example instances\<close>

definition mail_ok :: mailer where
  "mail_ok address msg_type = None"

definition mail_down :: mailer where
  "mail_down address msg_type = Some (Throwable ''connection refused'')"

definition founder :: user where
  "founder = \<lparr>email = ''founder@example.com'', is_superuser = True, is_active = True,
              date_joined = 0\<rparr>"

definition retired_founder :: user where
  "retired_founder = \<lparr>email = ''founder@example.com'', is_superuser = True,
                      is_active = False, date_joined = 0\<rparr>"

definition analyst :: user where
  "analyst = \<lparr>email = ''analyst@example.com'', is_superuser = False, is_active = True,
              date_joined = 86400\<rparr>"

text \<open>
  An instance with the given users at the given time: no activity, no views, nothing sent,
  both settings at their default, email configured and tracking enabled.
\<close>

definition instance_at :: "user list \<Rightarrow> int \<Rightarrow> world" where
  "instance_at us t =
     \<lparr>users = us, activity = [], view_log = [],
      follow_up_email_sent = False, abandonment_email_sent = False,
      email_configured = True, anon_tracking_enabled = True,
      clock = t, sent_mail = [], log_entries = []\<rparr>"

section \<open>Permission lookups (enterprise frontend)\<close>

text \<open>
  \<^verbatim>\<open>getApplicationPermission\<close> (application_permissions/selectors.ts) and
  \<^verbatim>\<open>getDetailsPermission\<close> (feature_level_permissions/permission-management/details-permission.ts)
  read a nested JavaScript object with icepick's \<^verbatim>\<open>getIn\<close> and fall back with \<^verbatim>\<open>??\<close>.
\<close>

subsection \<open>Property keys\<close>


fun decimal :: "nat \<Rightarrow> string" where
  "decimal n =
     (if n < 10 then [''0123456789'' ! n]
      else decimal (n div 10) @ [''0123456789'' ! (n mod 10)])"


subsection \<open>Values\<close>

text \<open>
  The permissions graph is data: objects, strings, \<^verbatim>\<open>null\<close> and \<^verbatim>\<open>undefined\<close>, as the
  declared types \<^verbatim>\<open>ApplicationPermissions\<close> and \<^verbatim>\<open>GroupsPermissions\<close> are built. An object
  is the list of its own properties.
\<close>

datatype jsvalue =
    JUndefined
  | JNull
  | JString string
  | JObject "(string \<times> jsvalue) list"

text \<open>
  What \<^verbatim>\<open>v[key]\<close> can give on data: a value of the graph, the number that is a string's
  \<^verbatim>\<open>length\<close>, or a member that every object, string or number has built in (a method or
  a prototype object), kept by its name.
\<close>

datatype looked_up =
    Value jsvalue
  | Number nat
  | Builtin string

text \<open>
  \<^verbatim>\<open>v[key]\<close> throws a TypeError on \<^verbatim>\<open>null\<close> and \<^verbatim>\<open>undefined\<close>. The properties of
  a built-in member are outside this model.
\<close>

datatype failure = TypeError | Unmodelled

text \<open>
  The property names of \<^verbatim>\<open>Object.prototype\<close>, \<^verbatim>\<open>String.prototype\<close> and
  \<^verbatim>\<open>Number.prototype\<close> in ECMAScript, Annex B included.
\<close>

definition Object_prototype :: "string list" where
  "Object_prototype =
     [''constructor'', ''__defineGetter__'', ''__defineSetter__'', ''hasOwnProperty'',
      ''__lookupGetter__'', ''__lookupSetter__'', ''isPrototypeOf'',
      ''propertyIsEnumerable'', ''toString'', ''valueOf'', ''__proto__'',
      ''toLocaleString'']"

definition String_prototype :: "string list" where
  "String_prototype =
     [''constructor'', ''anchor'', ''at'', ''big'', ''blink'', ''bold'', ''charAt'',
      ''charCodeAt'', ''codePointAt'', ''concat'', ''endsWith'', ''fontcolor'',
      ''fontsize'', ''fixed'', ''includes'', ''indexOf'', ''isWellFormed'', ''italics'',
      ''lastIndexOf'', ''link'', ''localeCompare'', ''match'', ''matchAll'', ''normalize'',
      ''padEnd'', ''padStart'', ''repeat'', ''replace'', ''replaceAll'', ''search'',
      ''slice'', ''small'', ''split'', ''strike'', ''sub'', ''substr'', ''substring'',
      ''sup'', ''startsWith'', ''toString'', ''toWellFormed'', ''trim'', ''trimStart'',
      ''trimLeft'', ''trimEnd'', ''trimRight'', ''toLocaleLowerCase'',
      ''toLocaleUpperCase'', ''toLowerCase'', ''toUpperCase'', ''valueOf'']"

definition Number_prototype :: "string list" where
  "Number_prototype =
     [''constructor'', ''toExponential'', ''toFixed'', ''toLocaleString'',
      ''toPrecision'', ''toString'', ''valueOf'']"


text \<open>
  \<^verbatim>\<open>v[key]\<close>: an own property first, then the prototype chain. The own properties of
  a string are its code units at the indices below its length, and \<^verbatim>\<open>length\<close>; its chain
  is \<^verbatim>\<open>String.prototype\<close>, then \<^verbatim>\<open>Object.prototype\<close>.
\<close>

fun property :: "looked_up \<Rightarrow> string \<Rightarrow> failure + looked_up" where
  "property (Value JUndefined) key = Inl TypeError"
| "property (Value JNull) key = Inl TypeError"
| "property (Value (JObject kvs)) key =
     (case map_of kvs key of
        Some v \<Rightarrow> Inr (Value v)
      | None \<Rightarrow>
          if key \<in> set Object_prototype then Inr (Builtin key)
          else Inr (Value JUndefined))"
| "property (Value (JString s)) key =
     (case find (\<lambda>i. decimal i = key) [0..<length s] of
        Some i \<Rightarrow> Inr (Value (JString [s ! i]))
      | None \<Rightarrow>
          if key = ''length'' then Inr (Number (length s))
          else if key \<in> set String_prototype \<or> key \<in> set Object_prototype
          then Inr (Builtin key)
          else Inr (Value JUndefined))"
| "property (Number n) key =
     (if key \<in> set Number_prototype \<or> key \<in> set Object_prototype
      then Inr (Builtin key)
      else Inr (Value JUndefined))"
| "property (Builtin name) key = Inl Unmodelled"







section \<open>What a run of each job does\<close>

lemma sort_key_Nil_iff: "sort_key f xs = [] \<longleftrightarrow> xs = []"
  using length_sort [of f xs] by (metis length_0_conv)

lemma select_one_None_iff: "select_one P t = None \<longleftrightarrow> (\<forall>u\<in>set t. \<not> P u)"
proof -
  have "select_one P t = None \<longleftrightarrow> sort_key date_joined (filter P t) = []"
    by (simp add: select_one_def split: list.splits)
  also have "\<dots> \<longleftrightarrow> filter P t = []"
    by (rule sort_key_Nil_iff)
  also have "\<dots> \<longleftrightarrow> (\<forall>u\<in>set t. \<not> P u)"
    by (simp add: filter_empty_conv)
  finally show ?thesis .
qed

lemma select_one_SomeD: "select_one P t = Some u \<Longrightarrow> u \<in> set t \<and> P u"
proof -
  assume "select_one P t = Some u"
  then obtain rest where "sort_key date_joined (filter P t) = u # rest"
    by (auto simp: select_one_def split: list.splits)
  then have "u \<in> set (sort_key date_joined (filter P t))" by simp
  then show ?thesis by simp
qed

text \<open>
  The try form of either job, whatever the transport does: the call is recorded, a thrown
  failure is logged, the setting is written, and nothing is thrown further.
\<close>

lemma follow_up_attempt:
  "try_catch_finally (messages_send_follow_up_email tr a ty) (\<lambda>e. log_error msg e)
     (set_follow_up_email_sent True) w =
   (Inr (), w\<lparr>sent_mail := sent_mail w @ [(a, ty)],
              log_entries := (case tr a ty of None \<Rightarrow> log_entries w
                              | Some e \<Rightarrow> log_entries w @ [Error msg e]),
              follow_up_email_sent := True\<rparr>)"
  by (cases "tr a ty")
     (simp_all add: try_catch_finally_def messages_send_follow_up_email_def log_error_def
        set_follow_up_email_sent_def)

lemma abandonment_attempt:
  "try_catch_finally (messages_send_follow_up_email tr a ty) (\<lambda>e. log_error msg e)
     (set_abandonment_email_sent True) w =
   (Inr (), w\<lparr>sent_mail := sent_mail w @ [(a, ty)],
              log_entries := (case tr a ty of None \<Rightarrow> log_entries w
                              | Some e \<Rightarrow> log_entries w @ [Error msg e]),
              abandonment_email_sent := True\<rparr>)"
  by (cases "tr a ty")
     (simp_all add: try_catch_finally_def messages_send_follow_up_email_def log_error_def
        set_abandonment_email_sent_def)

lemma FollowUpEmail_eq:
  "FollowUpEmail tr w =
     (case (instance_creation_timestamp w,
            select_one (\<lambda>u. is_superuser u \<and> is_active u) (users w)) of
        (Some created, Some admin) \<Rightarrow>
          if \<not> follow_up_email_sent w \<and> weeks 2 \<le> clock w - created
             \<and> email_configured w \<and> anon_tracking_enabled w
          then (Inr (),
                w\<lparr>sent_mail := sent_mail w @ [(email admin, ''follow-up'')],
                  log_entries :=
                    (case tr (email admin) ''follow-up'' of
                       None \<Rightarrow> log_entries w
                     | Some e \<Rightarrow>
                         log_entries w @ [Error ''Problem sending follow-up email:'' e]),
                  follow_up_email_sent := True\<rparr>)
          else (Inr (), w)
      | _ \<Rightarrow> (Inr (), w))"
proof (cases "instance_creation_timestamp w")
  case None
  then show ?thesis by (simp add: FollowUpEmail_def)
next
  case created: (Some created)
  show ?thesis
  proof (cases "select_one (\<lambda>u. is_superuser u \<and> is_active u) (users w)")
    case None
    with created show ?thesis
      by (simp add: FollowUpEmail_def send_follow_up_email_def)
  next
    case (Some admin)
    with created show ?thesis
      by (simp add: FollowUpEmail_def send_follow_up_email_def follow_up_attempt older_than_def)
  qed
qed

lemma AbandonmentEmail_eq:
  "AbandonmentEmail tr w =
     (case select_one_field email is_superuser (users w) of
        Some a \<Rightarrow>
          if \<not> abandonment_email_sent w \<and> email_configured w \<and> anon_tracking_enabled w
             \<and> should_send_abandoment_email w
          then (Inr (),
                w\<lparr>sent_mail := sent_mail w @ [(a, ''abandon'')],
                  log_entries :=
                    (case tr a ''abandon'' of
                       None \<Rightarrow> log_entries w @ [Info ''Sending abandonment email!'']
                     | Some e \<Rightarrow>
                         log_entries w @ [Info ''Sending abandonment email!'',
                                          Error ''Problem sending abandonment email'' e]),
                  abandonment_email_sent := True\<rparr>)
          else (Inr (), w)
      | None \<Rightarrow> (Inr (), w))"
proof (cases "select_one_field email is_superuser (users w)")
  case None
  then show ?thesis
    by (simp add: AbandonmentEmail_def send_abandoment_email_if_needed_def)
next
  case (Some a)
  then show ?thesis
    by (cases "tr a ''abandon''")
       (simp_all add: AbandonmentEmail_def send_abandoment_email_if_needed_def
          abandonment_attempt log_info_def)
qed

lemma FollowUpEmail_sent_mail:
  "sent_mail (snd (FollowUpEmail tr w)) = sent_mail w
   \<or> (\<exists>admin. select_one (\<lambda>u. is_superuser u \<and> is_active u) (users w) = Some admin
         \<and> sent_mail (snd (FollowUpEmail tr w)) = sent_mail w @ [(email admin, ''follow-up'')])"
proof (cases "instance_creation_timestamp w")
  case None
  then show ?thesis by (simp add: FollowUpEmail_eq)
next
  case created: (Some created)
  show ?thesis
  proof (cases "select_one (\<lambda>u. is_superuser u \<and> is_active u) (users w)")
    case None
    with created show ?thesis by (simp add: FollowUpEmail_eq)
  next
    case (Some admin)
    with created show ?thesis by (simp add: FollowUpEmail_eq)
  qed
qed

lemma AbandonmentEmail_sent_mail:
  "sent_mail (snd (AbandonmentEmail tr w)) = sent_mail w
   \<or> (\<exists>a. select_one_field email is_superuser (users w) = Some a
         \<and> sent_mail (snd (AbandonmentEmail tr w)) = sent_mail w @ [(a, ''abandon'')])"
proof (cases "select_one_field email is_superuser (users w)")
  case None
  then show ?thesis by (simp add: AbandonmentEmail_eq)
next
  case (Some a)
  then show ?thesis by (simp add: AbandonmentEmail_eq)
qed

lemma no_users_no_creation_timestamp: "users w = [] \<Longrightarrow> instance_creation_timestamp w = None"
  by (simp add: instance_creation_timestamp_def select_one_field_def select_one_def)

lemma no_users_no_abandonment: "users w = [] \<Longrightarrow> AbandonmentEmail tr w = (Inr (), w)"
  by (simp add: AbandonmentEmail_eq select_one_field_def select_one_def)

section \<open>Facts about the queries\<close>

lemma select_one_field_email_SomeD:
  "select_one_field email P t = Some a \<Longrightarrow> \<exists>u\<in>set t. P u \<and> email u = a"
  using select_one_SomeD by (fastforce simp: select_one_field_def)

section \<open>Runs of the example instances\<close>

lemma founder_follow_up_run:
  "sent_mail (snd (FollowUpEmail tr (instance_at [founder] (weeks 5))))
     = [(''founder@example.com'', ''follow-up'')]"
  by (simp add: FollowUpEmail_eq instance_creation_timestamp_def select_one_field_def
      select_one_def instance_at_def founder_def weeks_def)

lemma founder_should_send:
  "should_send_abandoment_email (instance_at [founder] (weeks 5))"
  by (simp add: should_send_abandoment_email_def should_send_abandoment_email4_def
      older_than_def instance_creation_timestamp_def select_one_field_def select_one_def
      instance_at_def founder_def weeks_def)

lemma founder_abandonment_run:
  "sent_mail (snd (AbandonmentEmail tr (instance_at [founder] (weeks 5))))
     = [(''founder@example.com'', ''abandon'')]"
  using founder_should_send
  by (simp add: AbandonmentEmail_eq select_one_field_def select_one_def instance_at_def
      founder_def)

lemma retired_founder_should_send:
  "should_send_abandoment_email (instance_at [retired_founder] (weeks 5))"
  by (simp add: should_send_abandoment_email_def should_send_abandoment_email4_def
      older_than_def instance_creation_timestamp_def select_one_field_def select_one_def
      instance_at_def retired_founder_def weeks_def)

lemma retired_founder_abandonment_run:
  "sent_mail (snd (AbandonmentEmail tr (instance_at [retired_founder] (weeks 5))))
     = [(email retired_founder, ''abandon'')]"
  using retired_founder_should_send
  by (simp add: AbandonmentEmail_eq select_one_field_def select_one_def instance_at_def
      retired_founder_def)

section \<open>The abandonment predicate\<close>

text \<open>
  C2. For all four (possibly absent) timestamps, the four-argument predicate is true
  exactly when the creation timestamp is present and at least 4 weeks old, and each of the
  last-user, last-activity and last-view timestamps is absent or at least 2 weeks old.
\<close>

theorem should_send_abandoment_email4_iff:
  "should_send_abandoment_email4 current instance_creation last_user last_activity last_view =
     ((\<exists>created. instance_creation = Some created \<and> weeks 4 \<le> current - created)
      \<and> (last_user = None \<or> (\<exists>t. last_user = Some t \<and> weeks 2 \<le> current - t))
      \<and> (last_activity = None \<or> (\<exists>t. last_activity = Some t \<and> weeks 2 \<le> current - t))
      \<and> (last_view = None \<or> (\<exists>t. last_view = Some t \<and> weeks 2 \<le> current - t)))"
  by (cases instance_creation; cases last_user; cases last_activity; cases last_view)
     (simp_all add: should_send_abandoment_email4_def older_than_def)

text \<open>
  C8. With the instance 5 weeks old and the last user joined 1 week ago the predicate is
  false whatever the other two signals are; with last-user and last-activity absent, the
  last view 3 weeks ago and the instance 5 weeks old it is true; and from any arguments
  that satisfy it, replacing the creation timestamp by one less than 4 weeks old, or any
  one of the three signals by one less than 2 weeks old, makes it false.
\<close>

theorem abandonment_predicate_examples:
  "\<not> should_send_abandoment_email4 current (Some (current - weeks 5))
        (Some (current - weeks 1)) last_activity last_view
   \<and> should_send_abandoment_email4 current (Some (current - weeks 5)) None None
        (Some (current - weeks 3))
   \<and> (should_send_abandoment_email4 current instance_creation last_user last_activity' last_view'
      \<longrightarrow> (current - t < weeks 4
            \<longrightarrow> \<not> should_send_abandoment_email4 current (Some t) last_user last_activity' last_view')
         \<and> (current - t < weeks 2
            \<longrightarrow> \<not> should_send_abandoment_email4 current instance_creation (Some t)
                     last_activity' last_view'
               \<and> \<not> should_send_abandoment_email4 current instance_creation last_user
                     (Some t) last_view'
               \<and> \<not> should_send_abandoment_email4 current instance_creation last_user
                     last_activity' (Some t)))"
  by (simp add: should_send_abandoment_email4_def older_than_def weeks_def
      split: option.splits)

text \<open>
  The satisfying arguments of the example at time 10 weeks, and each of the four
  replacements by a timestamp one week old.
\<close>

theorem abandonment_predicate_examples_witness:
  "should_send_abandoment_email4 (weeks 10) (Some (weeks 5)) None None (Some (weeks 7))
   \<and> weeks 10 - weeks 9 < weeks 4 \<and> weeks 10 - weeks 9 < weeks 2
   \<and> \<not> should_send_abandoment_email4 (weeks 10) (Some (weeks 9)) None None (Some (weeks 7))
   \<and> \<not> should_send_abandoment_email4 (weeks 10) (Some (weeks 5)) (Some (weeks 9)) None
         (Some (weeks 7))
   \<and> \<not> should_send_abandoment_email4 (weeks 10) (Some (weeks 5)) None (Some (weeks 9))
         (Some (weeks 7))
   \<and> \<not> should_send_abandoment_email4 (weeks 10) (Some (weeks 5)) None None (Some (weeks 9))"
proof -
  have age: "weeks 10 - weeks 5 = weeks 5" "weeks 10 - weeks 3 = weeks 7"
    "weeks 10 - weeks 9 < weeks 4" "weeks 10 - weeks 9 < weeks 2"
    by (simp_all add: weeks_def)
  from age
    abandonment_predicate_examples
      [where current = "weeks 10" and instance_creation = "Some (weeks 5)"
         and last_user = None and last_activity' = None and last_view' = "Some (weeks 7)"
         and t = "weeks 9"]
  show ?thesis by simp
qed

section \<open>One attempt per notification\<close>

lemma occur_follow_up_potential:
  "attempts ''follow-up'' (occur ev w) + (if follow_up_email_sent (occur ev w) then 0 else 1)
     \<le> attempts ''follow-up'' w + (if follow_up_email_sent w then 0 else 1)"
  by (cases ev) (auto simp: attempts_def FollowUpEmail_eq AbandonmentEmail_eq split: option.splits)

lemma occur_abandonment_potential:
  "attempts ''abandon'' (occur ev w) + (if abandonment_email_sent (occur ev w) then 0 else 1)
     \<le> attempts ''abandon'' w + (if abandonment_email_sent w then 0 else 1)"
  by (cases ev) (auto simp: attempts_def FollowUpEmail_eq AbandonmentEmail_eq split: option.splits)

lemma lifetime_follow_up_potential:
  "attempts ''follow-up'' (lifetime ts w) + (if follow_up_email_sent (lifetime ts w) then 0 else 1)
     \<le> attempts ''follow-up'' w + (if follow_up_email_sent w then 0 else 1)"
proof (induction ts arbitrary: w)
  case Nil
  show ?case by (simp add: lifetime_def)
next
  case (Cons ev ts)
  have "lifetime (ev # ts) w = lifetime ts (occur ev w)"
    by (simp add: lifetime_def)
  with Cons.IH [of "occur ev w"] occur_follow_up_potential [of ev w]
  show ?case by simp
qed

lemma lifetime_abandonment_potential:
  "attempts ''abandon'' (lifetime ts w) + (if abandonment_email_sent (lifetime ts w) then 0 else 1)
     \<le> attempts ''abandon'' w + (if abandonment_email_sent w then 0 else 1)"
proof (induction ts arbitrary: w)
  case Nil
  show ?case by (simp add: lifetime_def)
next
  case (Cons ev ts)
  have "lifetime (ev # ts) w = lifetime ts (occur ev w)"
    by (simp add: lifetime_def)
  with Cons.IH [of "occur ev w"] occur_abandonment_potential [of ev w]
  show ?case by simp
qed

lemma occur_keeps_follow_up_flag:
  "follow_up_email_sent w \<Longrightarrow> follow_up_email_sent (occur ev w)"
  by (cases ev) (simp_all add: FollowUpEmail_eq AbandonmentEmail_eq split: option.splits)

lemma occur_keeps_abandonment_flag:
  "abandonment_email_sent w \<Longrightarrow> abandonment_email_sent (occur ev w)"
  by (cases ev) (simp_all add: FollowUpEmail_eq AbandonmentEmail_eq split: option.splits)

text \<open>
  C1. Once the setting of a job is true, a run of that job calls nothing and changes
  nothing, whatever the transport would do; nothing that can occur, neither job nor an
  outside change, turns a true setting false; and over any sequence of occurrences the
  number of calls with a job's message type grows by at most one when the setting starts
  false, and not at all when it starts true. From a new instance (nothing sent, both
  settings false) each notification is therefore attempted at most once.
\<close>

theorem notifications_sent_at_most_once:
  "(follow_up_email_sent w \<longrightarrow> FollowUpEmail tr w = (Inr (), w))
   \<and> (abandonment_email_sent w \<longrightarrow> AbandonmentEmail tr w = (Inr (), w))
   \<and> (follow_up_email_sent w \<longrightarrow> follow_up_email_sent (occur ev w))
   \<and> (abandonment_email_sent w \<longrightarrow> abandonment_email_sent (occur ev w))
   \<and> attempts ''follow-up'' (lifetime ts w)
        \<le> attempts ''follow-up'' w + (if follow_up_email_sent w then 0 else 1)
   \<and> attempts ''abandon'' (lifetime ts w)
        \<le> attempts ''abandon'' w + (if abandonment_email_sent w then 0 else 1)"
proof -
  have "follow_up_email_sent w \<longrightarrow> FollowUpEmail tr w = (Inr (), w)"
    by (simp add: FollowUpEmail_def)
  moreover have "abandonment_email_sent w \<longrightarrow> AbandonmentEmail tr w = (Inr (), w)"
    by (simp add: AbandonmentEmail_def)
  moreover have "follow_up_email_sent w \<longrightarrow> follow_up_email_sent (occur ev w)"
    using occur_keeps_follow_up_flag by blast
  moreover have "abandonment_email_sent w \<longrightarrow> abandonment_email_sent (occur ev w)"
    using occur_keeps_abandonment_flag by blast
  moreover have "attempts ''follow-up'' (lifetime ts w)
        \<le> attempts ''follow-up'' w + (if follow_up_email_sent w then 0 else 1)"
    using lifetime_follow_up_potential [of ts w] by linarith
  moreover have "attempts ''abandon'' (lifetime ts w)
        \<le> attempts ''abandon'' w + (if abandonment_email_sent w then 0 else 1)"
    using lifetime_abandonment_potential [of ts w] by linarith
  ultimately show ?thesis by blast
qed

text \<open>
  An instance whose founder joined 5 weeks ago: after one run of a job with a failing
  transport its setting is true and a further run does nothing; over two firings of the
  follow-up job and one of the abandonment job each message type is attempted at most once.
\<close>

theorem notifications_sent_at_most_once_witness:
  "follow_up_email_sent (lifetime [Fire_FollowUpEmail mail_down] (instance_at [founder] (weeks 5)))
   \<and> abandonment_email_sent
        (lifetime [Fire_AbandonmentEmail mail_down] (instance_at [founder] (weeks 5)))
   \<and> FollowUpEmail mail_ok (lifetime [Fire_FollowUpEmail mail_down] (instance_at [founder] (weeks 5)))
        = (Inr (), lifetime [Fire_FollowUpEmail mail_down] (instance_at [founder] (weeks 5)))
   \<and> AbandonmentEmail mail_ok
          (lifetime [Fire_AbandonmentEmail mail_down] (instance_at [founder] (weeks 5)))
        = (Inr (), lifetime [Fire_AbandonmentEmail mail_down] (instance_at [founder] (weeks 5)))
   \<and> attempts ''follow-up''
        (lifetime [Fire_FollowUpEmail mail_down, Outside [founder] [] [] True True (weeks 6),
                   Fire_FollowUpEmail mail_ok, Fire_AbandonmentEmail mail_ok]
           (instance_at [founder] (weeks 5))) \<le> 1
   \<and> attempts ''abandon''
        (lifetime [Fire_FollowUpEmail mail_down, Outside [founder] [] [] True True (weeks 6),
                   Fire_FollowUpEmail mail_ok, Fire_AbandonmentEmail mail_ok]
           (instance_at [founder] (weeks 5))) \<le> 1"
proof -
  have sent1: "follow_up_email_sent
      (lifetime [Fire_FollowUpEmail mail_down] (instance_at [founder] (weeks 5)))"
    by (simp add: lifetime_def FollowUpEmail_eq instance_creation_timestamp_def
        select_one_field_def select_one_def instance_at_def founder_def weeks_def)
  have sent2: "abandonment_email_sent
      (lifetime [Fire_AbandonmentEmail mail_down] (instance_at [founder] (weeks 5)))"
    by (simp add: lifetime_def AbandonmentEmail_eq should_send_abandoment_email_def
        should_send_abandoment_email4_def older_than_def instance_creation_timestamp_def
        select_one_field_def select_one_def instance_at_def founder_def weeks_def)
  have new: "attempts ''follow-up'' (instance_at [founder] (weeks 5)) = 0"
    "attempts ''abandon'' (instance_at [founder] (weeks 5)) = 0"
    "\<not> follow_up_email_sent (instance_at [founder] (weeks 5))"
    "\<not> abandonment_email_sent (instance_at [founder] (weeks 5))"
    by (simp_all add: attempts_def instance_at_def)
  from sent1 sent2 new
    notifications_sent_at_most_once
      [of "lifetime [Fire_FollowUpEmail mail_down] (instance_at [founder] (weeks 5))" mail_ok]
    notifications_sent_at_most_once
      [of "lifetime [Fire_AbandonmentEmail mail_down] (instance_at [founder] (weeks 5))" mail_ok]
    notifications_sent_at_most_once
      [of "instance_at [founder] (weeks 5)" mail_ok _
          "[Fire_FollowUpEmail mail_down, Outside [founder] [] [] True True (weeks 6),
            Fire_FollowUpEmail mail_ok, Fire_AbandonmentEmail mail_ok]"]
  show ?thesis by simp
qed

section \<open>The follow-up job\<close>

text \<open>
  C3, as stated, fails where the administrator of the data model (the earliest
  superuser) exists but is not active: the setting is false, the instance is three weeks
  old, email is configured, tracking is enabled, and the run sends nothing and leaves the
  setting false.
\<close>

theorem follow_up_inactive_administrator_counterexample:
  "\<not> follow_up_email_sent (instance_at [retired_founder] (weeks 3))
   \<and> instance_creation_timestamp (instance_at [retired_founder] (weeks 3)) = Some 0
   \<and> weeks 2 \<le> clock (instance_at [retired_founder] (weeks 3)) - 0
   \<and> email_configured (instance_at [retired_founder] (weeks 3))
   \<and> anon_tracking_enabled (instance_at [retired_founder] (weeks 3))
   \<and> select_one is_superuser (users (instance_at [retired_founder] (weeks 3)))
       = Some retired_founder
   \<and> FollowUpEmail mail_ok (instance_at [retired_founder] (weeks 3))
       = (Inr (), instance_at [retired_founder] (weeks 3))
   \<and> sent_mail (snd (FollowUpEmail mail_ok (instance_at [retired_founder] (weeks 3)))) = []
   \<and> \<not> follow_up_email_sent (snd (FollowUpEmail mail_ok (instance_at [retired_founder] (weeks 3))))"
  by (simp add: FollowUpEmail_def send_follow_up_email_def instance_creation_timestamp_def
      select_one_field_def select_one_def instance_at_def retired_founder_def weeks_def
      older_than_def)

text \<open>
  C3, amended. For every instance age strictly less than 2 weeks a run of the follow-up
  job does nothing. For every world with the setting false, instance age at least 2 weeks,
  email configured, tracking enabled and an active superuser, a run returns normally,
  records exactly one call, to an active superuser with message type follow-up, and sets
  the setting; a second run afterwards does nothing.
\<close>

theorem follow_up_job_sends_once:
  "(instance_creation_timestamp w = Some created \<and> clock w - created < weeks 2
      \<longrightarrow> FollowUpEmail tr w = (Inr (), w))
   \<and> (\<not> follow_up_email_sent w \<and> instance_creation_timestamp w = Some created
        \<and> weeks 2 \<le> clock w - created \<and> email_configured w \<and> anon_tracking_enabled w
        \<and> (\<exists>u\<in>set (users w). is_superuser u \<and> is_active u)
      \<longrightarrow> fst (FollowUpEmail tr w) = Inr ()
          \<and> (\<exists>admin\<in>set (users w). is_superuser admin \<and> is_active admin
                \<and> sent_mail (snd (FollowUpEmail tr w))
                     = sent_mail w @ [(email admin, ''follow-up'')])
          \<and> follow_up_email_sent (snd (FollowUpEmail tr w))
          \<and> FollowUpEmail tr' (snd (FollowUpEmail tr w)) = (Inr (), snd (FollowUpEmail tr w)))"
proof (intro conjI impI)
  assume "instance_creation_timestamp w = Some created \<and> clock w - created < weeks 2"
  then show "FollowUpEmail tr w = (Inr (), w)"
    by (simp add: FollowUpEmail_eq split: option.splits)
next
  assume gate: "\<not> follow_up_email_sent w \<and> instance_creation_timestamp w = Some created
        \<and> weeks 2 \<le> clock w - created \<and> email_configured w \<and> anon_tracking_enabled w
        \<and> (\<exists>u\<in>set (users w). is_superuser u \<and> is_active u)"
  then obtain admin
    where admin: "select_one (\<lambda>u. is_superuser u \<and> is_active u) (users w) = Some admin"
    using select_one_None_iff [of "\<lambda>u. is_superuser u \<and> is_active u" "users w"] by fastforce
  from select_one_SomeD [OF admin]
  have member: "admin \<in> set (users w)" "is_superuser admin" "is_active admin" by simp_all
  let ?w' = "snd (FollowUpEmail tr w)"
  from gate admin have sent: "sent_mail ?w' = sent_mail w @ [(email admin, ''follow-up'')]"
    and flag: "follow_up_email_sent ?w'" and ret: "fst (FollowUpEmail tr w) = Inr ()"
    by (simp_all add: FollowUpEmail_eq)
  from ret show "fst (FollowUpEmail tr w) = Inr ()" .
  from member sent show "\<exists>admin\<in>set (users w). is_superuser admin \<and> is_active admin
                \<and> sent_mail ?w' = sent_mail w @ [(email admin, ''follow-up'')]"
    by blast
  from flag show "follow_up_email_sent ?w'" .
  from flag show "FollowUpEmail tr' ?w' = (Inr (), ?w')"
    by (simp add: FollowUpEmail_def)
qed

text \<open>
  A founder who joined one week ago (no send), and a founder and an analyst with the
  founder's instance exactly two weeks old (one send, here with a failing transport).
\<close>

theorem follow_up_job_sends_once_witness:
  "instance_creation_timestamp (instance_at [founder] (weeks 1)) = Some 0
   \<and> clock (instance_at [founder] (weeks 1)) - 0 < weeks 2
   \<and> FollowUpEmail mail_ok (instance_at [founder] (weeks 1))
        = (Inr (), instance_at [founder] (weeks 1))
   \<and> \<not> follow_up_email_sent (instance_at [founder, analyst] (weeks 2))
   \<and> instance_creation_timestamp (instance_at [founder, analyst] (weeks 2)) = Some 0
   \<and> weeks 2 \<le> clock (instance_at [founder, analyst] (weeks 2)) - 0
   \<and> email_configured (instance_at [founder, analyst] (weeks 2))
   \<and> anon_tracking_enabled (instance_at [founder, analyst] (weeks 2))
   \<and> is_superuser founder \<and> is_active founder
   \<and> follow_up_email_sent (snd (FollowUpEmail mail_down (instance_at [founder, analyst] (weeks 2))))
   \<and> FollowUpEmail mail_ok (snd (FollowUpEmail mail_down (instance_at [founder, analyst] (weeks 2))))
        = (Inr (), snd (FollowUpEmail mail_down (instance_at [founder, analyst] (weeks 2))))"
  using follow_up_job_sends_once [of "instance_at [founder] (weeks 1)" 0 mail_ok mail_ok]
    follow_up_job_sends_once [of "instance_at [founder, analyst] (weeks 2)" 0 mail_down mail_ok]
  by (simp add: instance_creation_timestamp_def select_one_field_def select_one_def
      instance_at_def founder_def analyst_def weeks_def)

text \<open>
  C7. When the age gate of the follow-up job passes (setting false, creation timestamp
  present, instance at least 2 weeks old) but email is not configured, or tracking is
  disabled, or the job finds no administrator (no active superuser, in particular no
  superuser at all), the run returns normally and leaves the world as it was: nothing sent,
  nothing logged, the setting still false.
\<close>

theorem follow_up_preconditions_not_met:
  "\<not> follow_up_email_sent w \<and> instance_creation_timestamp w = Some created
     \<and> weeks 2 \<le> clock w - created
     \<and> (\<not> email_configured w \<or> \<not> anon_tracking_enabled w
        \<or> \<not> (\<exists>u\<in>set (users w). is_superuser u \<and> is_active u))
   \<longrightarrow> FollowUpEmail tr w = (Inr (), w)"
proof
  assume h: "\<not> follow_up_email_sent w \<and> instance_creation_timestamp w = Some created
     \<and> weeks 2 \<le> clock w - created
     \<and> (\<not> email_configured w \<or> \<not> anon_tracking_enabled w
        \<or> \<not> (\<exists>u\<in>set (users w). is_superuser u \<and> is_active u))"
  show "FollowUpEmail tr w = (Inr (), w)"
  proof (cases "select_one (\<lambda>u. is_superuser u \<and> is_active u) (users w)")
    case None
    then show ?thesis by (simp add: FollowUpEmail_eq split: option.splits)
  next
    case (Some admin)
    from select_one_SomeD [OF Some]
    have "\<exists>u\<in>set (users w). is_superuser u \<and> is_active u" by blast
    with h have "\<not> email_configured w \<or> \<not> anon_tracking_enabled w" by blast
    with Some show ?thesis by (auto simp: FollowUpEmail_eq split: option.splits)
  qed
qed

text \<open>
  Three instances three weeks old: email not configured, tracking disabled, and one whose
  only user is not a superuser.
\<close>

theorem follow_up_preconditions_not_met_witness:
  "\<not> follow_up_email_sent ((instance_at [founder] (weeks 3))\<lparr>email_configured := False\<rparr>)
   \<and> instance_creation_timestamp ((instance_at [founder] (weeks 3))\<lparr>email_configured := False\<rparr>)
        = Some 0
   \<and> weeks 2 \<le> clock ((instance_at [founder] (weeks 3))\<lparr>email_configured := False\<rparr>) - 0
   \<and> \<not> email_configured ((instance_at [founder] (weeks 3))\<lparr>email_configured := False\<rparr>)
   \<and> FollowUpEmail mail_ok ((instance_at [founder] (weeks 3))\<lparr>email_configured := False\<rparr>)
        = (Inr (), (instance_at [founder] (weeks 3))\<lparr>email_configured := False\<rparr>)
   \<and> \<not> anon_tracking_enabled ((instance_at [founder] (weeks 3))\<lparr>anon_tracking_enabled := False\<rparr>)
   \<and> FollowUpEmail mail_ok ((instance_at [founder] (weeks 3))\<lparr>anon_tracking_enabled := False\<rparr>)
        = (Inr (), (instance_at [founder] (weeks 3))\<lparr>anon_tracking_enabled := False\<rparr>)
   \<and> \<not> is_superuser analyst
   \<and> instance_creation_timestamp (instance_at [analyst] (weeks 3)) = Some 86400
   \<and> weeks 2 \<le> clock (instance_at [analyst] (weeks 3)) - 86400
   \<and> FollowUpEmail mail_ok (instance_at [analyst] (weeks 3))
        = (Inr (), instance_at [analyst] (weeks 3))"
  using
    follow_up_preconditions_not_met
      [of "(instance_at [founder] (weeks 3))\<lparr>email_configured := False\<rparr>" 0 mail_ok]
    follow_up_preconditions_not_met
      [of "(instance_at [founder] (weeks 3))\<lparr>anon_tracking_enabled := False\<rparr>" 0 mail_ok]
    follow_up_preconditions_not_met [of "instance_at [analyst] (weeks 3)" 86400 mail_ok]
  by (simp add: instance_creation_timestamp_def select_one_field_def select_one_def
      instance_at_def founder_def analyst_def weeks_def)

section \<open>The abandonment job\<close>

text \<open>
  C6. A run of the abandonment job calls \<^verbatim>\<open>messages/send-follow-up-email!\<close> only when
  its setting is false, email is configured and tracking is enabled; when moreover the
  predicate holds of the database and the email of the earliest superuser is found, the
  run returns normally, records exactly one call, to that address with message type
  abandon, and sets the setting, whether the transport throws or not.
\<close>

theorem abandonment_job_gate:
  "(sent_mail (snd (AbandonmentEmail tr w)) \<noteq> sent_mail w
      \<longrightarrow> \<not> abandonment_email_sent w \<and> email_configured w \<and> anon_tracking_enabled w)
   \<and> (\<not> abandonment_email_sent w \<and> email_configured w \<and> anon_tracking_enabled w
        \<and> should_send_abandoment_email w
        \<and> select_one_field email is_superuser (users w) = Some admin_email
      \<longrightarrow> fst (AbandonmentEmail tr w) = Inr ()
          \<and> sent_mail (snd (AbandonmentEmail tr w)) = sent_mail w @ [(admin_email, ''abandon'')]
          \<and> abandonment_email_sent (snd (AbandonmentEmail tr w)))"
proof (intro conjI impI)
  assume "sent_mail (snd (AbandonmentEmail tr w)) \<noteq> sent_mail w"
  then have "\<not> abandonment_email_sent w \<and> email_configured w \<and> anon_tracking_enabled w"
    by (simp add: AbandonmentEmail_def split: if_splits)
  then show "\<not> abandonment_email_sent w" and "email_configured w" and "anon_tracking_enabled w"
    by simp_all
next
  assume "\<not> abandonment_email_sent w \<and> email_configured w \<and> anon_tracking_enabled w
        \<and> should_send_abandoment_email w
        \<and> select_one_field email is_superuser (users w) = Some admin_email"
  then have run: "AbandonmentEmail tr w =
      (Inr (), w\<lparr>sent_mail := sent_mail w @ [(admin_email, ''abandon'')],
          log_entries :=
            (case tr admin_email ''abandon'' of
               None \<Rightarrow> log_entries w @ [Info ''Sending abandonment email!'']
             | Some e \<Rightarrow> log_entries w @ [Info ''Sending abandonment email!'',
                                            Error ''Problem sending abandonment email'' e]),
          abandonment_email_sent := True\<rparr>)"
    by (simp add: AbandonmentEmail_eq)
  show "fst (AbandonmentEmail tr w) = Inr ()"
    and "sent_mail (snd (AbandonmentEmail tr w)) = sent_mail w @ [(admin_email, ''abandon'')]"
    and "abandonment_email_sent (snd (AbandonmentEmail tr w))"
    by (simp_all add: run)
qed

text \<open>
  The founder's instance at 5 weeks: a run sends, and with a failing transport the run
  still returns normally with the setting true.
\<close>

theorem abandonment_job_gate_witness:
  "sent_mail (snd (AbandonmentEmail mail_ok (instance_at [founder] (weeks 5))))
      \<noteq> sent_mail (instance_at [founder] (weeks 5))
   \<and> \<not> abandonment_email_sent (instance_at [founder] (weeks 5))
   \<and> email_configured (instance_at [founder] (weeks 5))
   \<and> anon_tracking_enabled (instance_at [founder] (weeks 5))
   \<and> should_send_abandoment_email (instance_at [founder] (weeks 5))
   \<and> select_one_field email is_superuser (users (instance_at [founder] (weeks 5)))
        = Some ''founder@example.com''
   \<and> fst (AbandonmentEmail mail_down (instance_at [founder] (weeks 5))) = Inr ()
   \<and> sent_mail (snd (AbandonmentEmail mail_down (instance_at [founder] (weeks 5))))
        = sent_mail (instance_at [founder] (weeks 5)) @ [(''founder@example.com'', ''abandon'')]
   \<and> abandonment_email_sent (snd (AbandonmentEmail mail_down (instance_at [founder] (weeks 5))))"
proof -
  let ?w = "instance_at [founder] (weeks 5)"
  have admin: "select_one_field email is_superuser (users ?w) = Some ''founder@example.com''"
    by (simp add: select_one_field_def select_one_def instance_at_def founder_def)
  have new: "sent_mail ?w = []"
    by (simp add: instance_at_def)
  have changed: "sent_mail (snd (AbandonmentEmail mail_ok ?w)) \<noteq> sent_mail ?w"
    by (simp add: founder_abandonment_run new)
  have gate: "\<not> abandonment_email_sent ?w \<and> email_configured ?w \<and> anon_tracking_enabled ?w"
    using abandonment_job_gate [of mail_ok ?w] changed by blast
  have "fst (AbandonmentEmail mail_down ?w) = Inr ()
      \<and> sent_mail (snd (AbandonmentEmail mail_down ?w))
           = sent_mail ?w @ [(''founder@example.com'', ''abandon'')]
      \<and> abandonment_email_sent (snd (AbandonmentEmail mail_down ?w))"
    using abandonment_job_gate [of mail_down ?w "''founder@example.com''"]
      gate founder_should_send admin by blast
  with admin changed gate founder_should_send show ?thesis by blast
qed

section \<open>Delivery failures\<close>

text \<open>
  C4. Neither job ever throws. If a run of a job called
  \<^verbatim>\<open>messages/send-follow-up-email!\<close> and that call threw, the setting of the job is
  true after the run and the failure is in the log.
\<close>

theorem thrown_delivery_failure_is_swallowed:
  "fst (FollowUpEmail tr w) = Inr ()
   \<and> fst (AbandonmentEmail tr w) = Inr ()
   \<and> (sent_mail (snd (FollowUpEmail tr w)) = sent_mail w @ [(a, ty)] \<and> tr a ty = Some e
        \<longrightarrow> follow_up_email_sent (snd (FollowUpEmail tr w))
            \<and> log_entries (snd (FollowUpEmail tr w))
                 = log_entries w @ [Error ''Problem sending follow-up email:'' e])
   \<and> (sent_mail (snd (AbandonmentEmail tr w)) = sent_mail w @ [(a, ty)] \<and> tr a ty = Some e
        \<longrightarrow> abandonment_email_sent (snd (AbandonmentEmail tr w))
            \<and> log_entries (snd (AbandonmentEmail tr w))
                 = log_entries w @ [Info ''Sending abandonment email!'',
                                    Error ''Problem sending abandonment email'' e])"
proof (intro conjI impI)
  show "fst (FollowUpEmail tr w) = Inr ()"
    by (simp add: FollowUpEmail_eq split: option.splits)
  show "fst (AbandonmentEmail tr w) = Inr ()"
    by (simp add: AbandonmentEmail_eq split: option.splits)
next
  assume "sent_mail (snd (FollowUpEmail tr w)) = sent_mail w @ [(a, ty)] \<and> tr a ty = Some e"
  then have "follow_up_email_sent (snd (FollowUpEmail tr w))
      \<and> log_entries (snd (FollowUpEmail tr w))
           = log_entries w @ [Error ''Problem sending follow-up email:'' e]"
    by (auto simp: FollowUpEmail_eq split: option.splits if_splits)
  then show "follow_up_email_sent (snd (FollowUpEmail tr w))"
    and "log_entries (snd (FollowUpEmail tr w))
           = log_entries w @ [Error ''Problem sending follow-up email:'' e]"
    by simp_all
next
  assume "sent_mail (snd (AbandonmentEmail tr w)) = sent_mail w @ [(a, ty)] \<and> tr a ty = Some e"
  then have "abandonment_email_sent (snd (AbandonmentEmail tr w))
      \<and> log_entries (snd (AbandonmentEmail tr w))
           = log_entries w @ [Info ''Sending abandonment email!'',
                              Error ''Problem sending abandonment email'' e]"
    by (auto simp: AbandonmentEmail_eq split: option.splits if_splits)
  then show "abandonment_email_sent (snd (AbandonmentEmail tr w))"
    and "log_entries (snd (AbandonmentEmail tr w))
           = log_entries w @ [Info ''Sending abandonment email!'',
                              Error ''Problem sending abandonment email'' e]"
    by simp_all
qed

text \<open>
  The founder's instance at 5 weeks with a transport that refuses every message.
\<close>

theorem thrown_delivery_failure_is_swallowed_witness:
  "sent_mail (snd (FollowUpEmail mail_down (instance_at [founder] (weeks 5))))
     = sent_mail (instance_at [founder] (weeks 5)) @ [(''founder@example.com'', ''follow-up'')]
   \<and> mail_down ''founder@example.com'' ''follow-up'' = Some (Throwable ''connection refused'')
   \<and> sent_mail (snd (AbandonmentEmail mail_down (instance_at [founder] (weeks 5))))
     = sent_mail (instance_at [founder] (weeks 5)) @ [(''founder@example.com'', ''abandon'')]
   \<and> mail_down ''founder@example.com'' ''abandon'' = Some (Throwable ''connection refused'')
   \<and> fst (FollowUpEmail mail_down (instance_at [founder] (weeks 5))) = Inr ()
   \<and> fst (AbandonmentEmail mail_down (instance_at [founder] (weeks 5))) = Inr ()
   \<and> follow_up_email_sent (snd (FollowUpEmail mail_down (instance_at [founder] (weeks 5))))
   \<and> abandonment_email_sent (snd (AbandonmentEmail mail_down (instance_at [founder] (weeks 5))))
   \<and> log_entries (snd (FollowUpEmail mail_down (instance_at [founder] (weeks 5))))
       = [Error ''Problem sending follow-up email:'' (Throwable ''connection refused'')]
   \<and> log_entries (snd (AbandonmentEmail mail_down (instance_at [founder] (weeks 5))))
       = [Info ''Sending abandonment email!'',
          Error ''Problem sending abandonment email'' (Throwable ''connection refused'')]"
proof -
  have new: "sent_mail (instance_at [founder] (weeks 5)) = []"
    "log_entries (instance_at [founder] (weeks 5)) = []"
    by (simp_all add: instance_at_def)
  have down: "mail_down ''founder@example.com'' ''follow-up'' = Some (Throwable ''connection refused'')"
    "mail_down ''founder@example.com'' ''abandon'' = Some (Throwable ''connection refused'')"
    by (simp_all add: mail_down_def)
  from new down founder_follow_up_run [of mail_down] founder_abandonment_run [of mail_down]
    thrown_delivery_failure_is_swallowed
      [of mail_down "instance_at [founder] (weeks 5)" "''founder@example.com''"
          "''follow-up''" "Throwable ''connection refused''"]
    thrown_delivery_failure_is_swallowed
      [of mail_down "instance_at [founder] (weeks 5)" "''founder@example.com''"
          "''abandon''" "Throwable ''connection refused''"]
  show ?thesis by simp
qed

section \<open>Who is written to\<close>

text \<open>
  C9. A call recorded by the follow-up job is addressed to a superuser that is active;
  a call recorded by the abandonment job, to a superuser, active or not. Where every
  superuser is inactive a run of the follow-up job does nothing (its setting stays as it
  was), while the abandonment job can still send: it does for the instance whose only
  user is the retired founder, at 5 weeks.
\<close>

theorem administrator_resolution:
  "(sent_mail (snd (FollowUpEmail tr w)) \<noteq> sent_mail w
      \<longrightarrow> (\<exists>u\<in>set (users w). is_superuser u \<and> is_active u
             \<and> sent_mail (snd (FollowUpEmail tr w)) = sent_mail w @ [(email u, ''follow-up'')]))
   \<and> (sent_mail (snd (AbandonmentEmail tr w)) \<noteq> sent_mail w
      \<longrightarrow> (\<exists>u\<in>set (users w). is_superuser u
             \<and> sent_mail (snd (AbandonmentEmail tr w)) = sent_mail w @ [(email u, ''abandon'')]))
   \<and> ((\<forall>u\<in>set (users w). is_superuser u \<longrightarrow> \<not> is_active u)
      \<longrightarrow> FollowUpEmail tr w = (Inr (), w))
   \<and> (\<forall>u\<in>set (users (instance_at [retired_founder] (weeks 5))).
          is_superuser u \<longrightarrow> \<not> is_active u)
   \<and> sent_mail (snd (AbandonmentEmail tr (instance_at [retired_founder] (weeks 5))))
        = [(email retired_founder, ''abandon'')]"
proof (intro conjI impI)
  assume "sent_mail (snd (FollowUpEmail tr w)) \<noteq> sent_mail w"
  with FollowUpEmail_sent_mail [of tr w] obtain admin
    where admin: "select_one (\<lambda>u. is_superuser u \<and> is_active u) (users w) = Some admin"
      and sent: "sent_mail (snd (FollowUpEmail tr w))
                   = sent_mail w @ [(email admin, ''follow-up'')]"
    by blast
  from select_one_SomeD [OF admin] sent
  show "\<exists>u\<in>set (users w). is_superuser u \<and> is_active u
          \<and> sent_mail (snd (FollowUpEmail tr w)) = sent_mail w @ [(email u, ''follow-up'')]"
    by blast
next
  assume "sent_mail (snd (AbandonmentEmail tr w)) \<noteq> sent_mail w"
  with AbandonmentEmail_sent_mail [of tr w] obtain a
    where a: "select_one_field email is_superuser (users w) = Some a"
      and sent: "sent_mail (snd (AbandonmentEmail tr w)) = sent_mail w @ [(a, ''abandon'')]"
    by blast
  from select_one_field_email_SomeD [OF a] sent
  show "\<exists>u\<in>set (users w). is_superuser u
          \<and> sent_mail (snd (AbandonmentEmail tr w)) = sent_mail w @ [(email u, ''abandon'')]"
    by blast
next
  assume "\<forall>u\<in>set (users w). is_superuser u \<longrightarrow> \<not> is_active u"
  then have "select_one (\<lambda>u. is_superuser u \<and> is_active u) (users w) = None"
    by (simp add: select_one_None_iff)
  then show "FollowUpEmail tr w = (Inr (), w)"
    by (simp add: FollowUpEmail_eq split: option.splits)
next
  show "\<forall>u\<in>set (users (instance_at [retired_founder] (weeks 5))).
          is_superuser u \<longrightarrow> \<not> is_active u"
    by (simp add: instance_at_def retired_founder_def)
  show "sent_mail (snd (AbandonmentEmail tr (instance_at [retired_founder] (weeks 5))))
        = [(email retired_founder, ''abandon'')]"
    by (rule retired_founder_abandonment_run)
qed

text \<open>
  The founder's instance (the follow-up job sends to the founder) and the retired
  founder's instance (the follow-up job does nothing, the abandonment job sends).
\<close>

theorem administrator_resolution_witness:
  "sent_mail (snd (FollowUpEmail mail_ok (instance_at [founder] (weeks 5))))
      \<noteq> sent_mail (instance_at [founder] (weeks 5))
   \<and> sent_mail (snd (AbandonmentEmail mail_ok (instance_at [retired_founder] (weeks 5))))
      \<noteq> sent_mail (instance_at [retired_founder] (weeks 5))
   \<and> is_superuser retired_founder \<and> \<not> is_active retired_founder
   \<and> users (instance_at [retired_founder] (weeks 5)) = [retired_founder]
   \<and> FollowUpEmail mail_ok (instance_at [retired_founder] (weeks 5))
        = (Inr (), instance_at [retired_founder] (weeks 5))
   \<and> sent_mail (snd (AbandonmentEmail mail_ok (instance_at [retired_founder] (weeks 5))))
        = sent_mail (instance_at [retired_founder] (weeks 5))
            @ [(email retired_founder, ''abandon'')]
   \<and> (\<exists>u\<in>set (users (instance_at [founder] (weeks 5))). is_superuser u \<and> is_active u
         \<and> sent_mail (snd (FollowUpEmail mail_ok (instance_at [founder] (weeks 5))))
            = sent_mail (instance_at [founder] (weeks 5)) @ [(email u, ''follow-up'')])"
proof -
  let ?active = "instance_at [founder] (weeks 5)"
  let ?retired = "instance_at [retired_founder] (weeks 5)"
  have new: "sent_mail ?active = []" "sent_mail ?retired = []"
    "users ?retired = [retired_founder]"
    by (simp_all add: instance_at_def)
  have retired: "is_superuser retired_founder" "\<not> is_active retired_founder"
    by (simp_all add: retired_founder_def)
  have changed1: "sent_mail (snd (FollowUpEmail mail_ok ?active)) \<noteq> sent_mail ?active"
    by (simp add: founder_follow_up_run new)
  have changed2: "sent_mail (snd (AbandonmentEmail mail_ok ?retired)) \<noteq> sent_mail ?retired"
    by (simp add: retired_founder_abandonment_run new)
  have only: "\<forall>u\<in>set (users ?retired). is_superuser u \<longrightarrow> \<not> is_active u"
    by (simp add: new retired)
  have part1: "\<exists>u\<in>set (users ?active). is_superuser u \<and> is_active u
         \<and> sent_mail (snd (FollowUpEmail mail_ok ?active))
            = sent_mail ?active @ [(email u, ''follow-up'')]"
    by (rule mp [OF conjunct1 [OF administrator_resolution] changed1])
  have part3: "FollowUpEmail mail_ok ?retired = (Inr (), ?retired)"
    by (rule mp [OF conjunct1 [OF conjunct2 [OF conjunct2 [OF administrator_resolution]]] only])
  have "sent_mail (snd (AbandonmentEmail mail_ok ?retired))
        = [(email retired_founder, ''abandon'')]"
    by (rule conjunct2 [OF conjunct2 [OF conjunct2 [OF conjunct2
         [OF administrator_resolution]]]])
  then have part5: "sent_mail (snd (AbandonmentEmail mail_ok ?retired))
        = sent_mail ?retired @ [(email retired_founder, ''abandon'')]"
    by (simp only: new append_Nil)
  show ?thesis
    by (intro conjI changed1 changed2 retired new(3) part3 part5 part1)
qed

section \<open>Permission lookups default to no\<close>

declare decimal.simps [simp del]













lemma property_object:
  "key \<notin> set Object_prototype \<Longrightarrow>
   property (Value (JObject kvs)) key =
     Inr (Value (case map_of kvs key of None \<Rightarrow> JUndefined | Some v \<Rightarrow> v))"
  by (simp split: option.splits)












end
